theory Spec2Isabelle
  imports Main "HOL-Library.Word"
begin

unbundle bit_operations_syntax

section \<open>JavaScript values used by the simulator core\<close>

text \<open>
  The simulator of \<^verbatim>\<open>src/App.jsx\<close> computes with JavaScript numbers. The only numbers
  that occur are integers, \<^verbatim>\<open>NaN\<close> (from \<^verbatim>\<open>parseInt\<close> of a non-number and from
  arithmetic with \<^verbatim>\<open>undefined\<close>) and the value \<^verbatim>\<open>undefined\<close> itself (a read of a
  typed array at a key that is not an index). Integers are modelled as \<open>int\<close>: exact
  in JavaScript as long as they stay below \<open>2^53\<close> in absolute value.
\<close>

datatype jsval = Num int | NaN | Undefined

text \<open>\<^verbatim>\<open>ToInt32\<close>: what a store into an \<^verbatim>\<open>Int32Array\<close> and the bitwise operators do.\<close>

fun ToInt32 :: "jsval \<Rightarrow> 32 word" where
  "ToInt32 (Num n) = word_of_int n"
| "ToInt32 NaN = 0"
| "ToInt32 Undefined = 0"

text \<open>The operator \<^verbatim>\<open>+\<close> on numbers and \<^verbatim>\<open>undefined\<close>.\<close>

fun js_add :: "jsval \<Rightarrow> jsval \<Rightarrow> jsval" where
  "js_add (Num a) (Num b) = Num (a + b)"
| "js_add _ _ = NaN"

fun js_sub :: "jsval \<Rightarrow> jsval \<Rightarrow> jsval" where
  "js_sub (Num a) (Num b) = Num (a - b)"
| "js_sub _ _ = NaN"

text \<open>The operator \<^verbatim>\<open><\<close>: any comparison with \<^verbatim>\<open>NaN\<close> or \<^verbatim>\<open>undefined\<close> is false.\<close>

fun js_lt :: "jsval \<Rightarrow> jsval \<Rightarrow> bool" where
  "js_lt (Num a) (Num b) = (a < b)"
| "js_lt _ _ = False"

text \<open>The operator \<^verbatim>\<open>===\<close>.\<close>

fun js_strict_eq :: "jsval \<Rightarrow> jsval \<Rightarrow> bool" where
  "js_strict_eq (Num a) (Num b) = (a = b)"
| "js_strict_eq Undefined Undefined = True"
| "js_strict_eq _ _ = False"

text \<open>The shift count of \<^verbatim>\<open><<\<close> and \<^verbatim>\<open>>>>\<close>: the low five bits of the right operand.\<close>

fun shift_count :: "jsval \<Rightarrow> nat" where
  "shift_count (Num k) = nat (k mod 32)"
| "shift_count _ = 0"

definition int32 :: "32 word \<Rightarrow> jsval" where
  "int32 w = Num (sint w)"

subsection \<open>Strings\<close>

text \<open>
  Source text, mnemonics and operand tokens are \<open>string\<close>s (code units below 256).
  The accumulated output is a list of UTF-16 code units, since \<^verbatim>\<open>String.fromCharCode\<close>
  can produce any of them.
\<close>

type_synonym js_string = "nat list"

definition units :: "string \<Rightarrow> js_string" where
  "units s = map of_char s"

definition fromCharCode :: "int \<Rightarrow> js_string" where
  "fromCharCode c = [nat (c mod 65536)]"

definition is_ws :: "char \<Rightarrow> bool" where
  "is_ws c = (of_char c \<in> {9, 10, 11, 12, 13, 32, 160 :: nat})"

definition is_digit :: "char \<Rightarrow> bool" where
  "is_digit c = (48 \<le> (of_char c :: nat) \<and> (of_char c :: nat) \<le> 57)"

definition is_lower :: "char \<Rightarrow> bool" where
  "is_lower c = (97 \<le> (of_char c :: nat) \<and> (of_char c :: nat) \<le> 122)"

definition is_hex_digit :: "char \<Rightarrow> bool" where
  "is_hex_digit c = (is_digit c
     \<or> (97 \<le> (of_char c :: nat) \<and> (of_char c :: nat) \<le> 102)
     \<or> (65 \<le> (of_char c :: nat) \<and> (of_char c :: nat) \<le> 70))"

definition digit_val :: "char \<Rightarrow> int" where
  "digit_val c = (if is_digit c then int (of_char c) - 48
                  else if is_lower c then int (of_char c) - 87
                  else int (of_char c) - 55)"

text \<open>
  \<^verbatim>\<open>parseInt(str)\<close> with no radix: leading white space is skipped, a sign is read,
  a prefix \<^verbatim>\<open>0x\<close> selects base 16, the longest run of digits is the value, and no
  digit at all gives \<^verbatim>\<open>NaN\<close>.
\<close>

definition parse_digits :: "int \<Rightarrow> (char \<Rightarrow> bool) \<Rightarrow> int \<Rightarrow> string \<Rightarrow> jsval" where
  "parse_digits sign isd radix s =
     (let z = takeWhile isd s
      in if z = [] then NaN
         else Num (sign * foldl (\<lambda>acc d. acc * radix + digit_val d) 0 z))"

definition parse_radix :: "int \<Rightarrow> string \<Rightarrow> jsval" where
  "parse_radix sign s =
     (if take 2 s = ''0x'' \<or> take 2 s = ''0X''
      then parse_digits sign is_hex_digit 16 (drop 2 s)
      else parse_digits sign is_digit 10 s)"

definition parseInt :: "string \<Rightarrow> jsval" where
  "parseInt str =
     (let s = dropWhile is_ws str
      in case s of
           [] \<Rightarrow> NaN
         | c # cs \<Rightarrow>
             if c = CHR ''-'' then parse_radix (- 1) cs
             else if c = CHR ''+'' then parse_radix 1 cs
             else parse_radix 1 s)"

text \<open>An absent array element is \<^verbatim>\<open>undefined\<close>, which \<^verbatim>\<open>ToString\<close> turns into this.\<close>

fun to_string :: "string option \<Rightarrow> string" where
  "to_string None = ''undefined''"
| "to_string (Some s) = s"

text \<open>\<^verbatim>\<open>Number.prototype.toString()\<close> on an integer: signed decimal.\<close>

fun nat_digits :: "nat \<Rightarrow> string" where
  "nat_digits n = (if n < 10 then [char_of (48 + n)]
                   else nat_digits (n div 10) @ [char_of (48 + n mod 10)])"

declare nat_digits.simps [simp del]

definition int_toString :: "int \<Rightarrow> string" where
  "int_toString n = (if n < 0 then CHR ''-'' # nat_digits (nat (- n)) else nat_digits (nat n))"

section \<open>Architecture constants\<close>

definition REGISTERS :: "string list" where
  "REGISTERS =
     [''$zero'', ''$at'', ''$v0'', ''$v1'', ''$a0'', ''$a1'', ''$a2'', ''$a3'',
      ''$t0'', ''$t1'', ''$t2'', ''$t3'', ''$t4'', ''$t5'', ''$t6'', ''$t7'',
      ''$s0'', ''$s1'', ''$s2'', ''$s3'', ''$s4'', ''$s5'', ''$s6'', ''$s7'',
      ''$t8'', ''$t9'', ''$k0'', ''$k1'', ''$gp'', ''$sp'', ''$fp'', ''$ra'']"

text \<open>
  \<^verbatim>\<open>REG_MAP\<close> is a plain object: a key that is not a register name is looked up in
  \<^verbatim>\<open>Object.prototype\<close>, whose members are functions or objects, not \<^verbatim>\<open>undefined\<close>.
\<close>

fun index_of :: "'a \<Rightarrow> 'a list \<Rightarrow> nat option" where
  "index_of x [] = None"
| "index_of x (y # ys) =
     (if x = y then Some 0 else (case index_of x ys of None \<Rightarrow> None | Some i \<Rightarrow> Some (Suc i)))"

definition object_prototype_keys :: "string list" where
  "object_prototype_keys =
     [''constructor'', ''hasOwnProperty'', ''isPrototypeOf'', ''propertyIsEnumerable'',
      ''toLocaleString'', ''toString'', ''valueOf'', ''__proto__'',
      ''__defineGetter__'', ''__defineSetter__'', ''__lookupGetter__'', ''__lookupSetter__'']"

datatype parsed =
    Index nat              \<comment> \<open>a register number\<close>
  | Undef                  \<comment> \<open>\<^verbatim>\<open>undefined\<close>\<close>
  | Inherited              \<comment> \<open>a member of \<^verbatim>\<open>Object.prototype\<close>\<close>
  | OffsetReg jsval "nat option"  \<comment> \<open>the object \<^verbatim>\<open>{ offset, reg }\<close>\<close>

definition REG_MAP :: "string \<Rightarrow> parsed" where
  "REG_MAP str =
     (case index_of str REGISTERS of
        Some i \<Rightarrow> Index i
      | None \<Rightarrow> if str \<in> set object_prototype_keys then Inherited else Undef)"

definition MEMORY_SIZE :: int where "MEMORY_SIZE = 1024 * 4"
definition DATA_START :: int where "DATA_START = 0x10010000"
definition STACK_START :: int where "STACK_START = 0x7FFFFFFC"
definition TEXT_START :: int where "TEXT_START = 0x00400000"

section \<open>Simulator state\<close>

record instruction =
  inst_pc :: int
  op :: string
  args :: "string list"
  original :: string
  sourceLine :: nat

datatype js_exception =
    CannotDestructure    \<comment> \<open>TypeError: destructuring \<^verbatim>\<open>undefined\<close>\<close>
  | NotAFunction         \<comment> \<open>TypeError: calling a property that is not a function\<close>

datatype sim_error =
    RuntimeError int js_exception   \<comment> \<open>\<^verbatim>\<open>Runtime Error at PC 0x..: message\<close>\<close>
  | AssemblerError js_exception     \<comment> \<open>\<^verbatim>\<open>Assembler Error: message\<close>\<close>

type_synonym memory = "jsval \<rightharpoonup> nat"
type_synonym registers = "32 word list"

record sim =
  regs :: registers
  pc :: jsval
  memory :: memory
  "output" :: js_string
  isRunning :: bool
  error :: "sim_error option"
  instructions :: "instruction list"
  labelMap :: "string \<rightharpoonup> int"
  sourceMap :: "int \<rightharpoonup> nat"

definition newRegs :: registers where
  "newRegs = (replicate 32 0)[29 := word_of_int STACK_START]"

definition reset :: "sim \<Rightarrow> sim" where
  "reset s = s\<lparr>regs := newRegs, pc := Num TEXT_START, memory := Map.empty,
               output := [], isRunning := False, error := None\<rparr>"

section \<open>Memory access helpers\<close>

text \<open>
  The memory is an object keyed by the address, a number: an integer or, after
  arithmetic with \<^verbatim>\<open>undefined\<close>, \<^verbatim>\<open>NaN\<close>. An absent key reads as 0.
\<close>

definition getMemByte :: "jsval \<Rightarrow> memory \<Rightarrow> nat" where
  "getMemByte addr currentMem = (case currentMem addr of None \<Rightarrow> 0 | Some v \<Rightarrow> v)"

definition getMemWord :: "jsval \<Rightarrow> memory \<Rightarrow> int" where
  "getMemWord addr currentMem =
     sint (push_bit 24 (word_of_nat (getMemByte addr currentMem) :: 32 word)
           OR push_bit 16 (word_of_nat (getMemByte (js_add addr (Num 1)) currentMem))
           OR push_bit 8 (word_of_nat (getMemByte (js_add addr (Num 2)) currentMem))
           OR word_of_nat (getMemByte (js_add addr (Num 3)) currentMem))"

definition setMemByte :: "jsval \<Rightarrow> jsval \<Rightarrow> memory \<Rightarrow> memory" where
  "setMemByte addr val currentMem = currentMem(addr \<mapsto> unat (ToInt32 val AND 0xFF))"

definition setMemWord :: "jsval \<Rightarrow> jsval \<Rightarrow> memory \<Rightarrow> memory" where
  "setMemWord addr val currentMem =
     (let nextMem = currentMem;
          nextMem = nextMem(addr \<mapsto> unat (signed_drop_bit 24 (ToInt32 val) AND 0xFF));
          nextMem = nextMem(js_add addr (Num 1) \<mapsto> unat (signed_drop_bit 16 (ToInt32 val) AND 0xFF));
          nextMem = nextMem(js_add addr (Num 2) \<mapsto> unat (signed_drop_bit 8 (ToInt32 val) AND 0xFF));
          nextMem = nextMem(js_add addr (Num 3) \<mapsto> unat (ToInt32 val AND 0xFF))
      in nextMem)"

section \<open>Execution step\<close>

subsection \<open>Operand helpers\<close>

text \<open>
  The regular expression \<^verbatim>\<open>/(-?\d+)\((\$[a-z0-9]+)\)/\<close> of \<^verbatim>\<open>parseReg\<close>, matched at the
  start of a string: an optional minus, digits, an opening parenthesis, a dollar, a
  run of lower-case letters and digits, a closing parenthesis. Both runs are followed
  by a character outside their class, so backtracking cannot shorten them.
\<close>

definition match_here :: "string \<Rightarrow> (string \<times> string) option" where
  "match_here s =
     (let sign = (if take 1 s = ''-'' then ''-'' else '''');
          r1 = drop (length sign) s;
          ds = takeWhile is_digit r1;
          r2 = dropWhile is_digit r1;
          ws = takeWhile (\<lambda>c. is_lower c \<or> is_digit c) (drop 2 r2);
          r3 = dropWhile (\<lambda>c. is_lower c \<or> is_digit c) (drop 2 r2)
      in if ds \<noteq> [] \<and> take 2 r2 = ''($'' \<and> ws \<noteq> [] \<and> take 1 r3 = '')''
         then Some (sign @ ds, CHR ''$'' # ws) else None)"

text \<open>\<^verbatim>\<open>str.match(re)\<close>: the leftmost position where the expression matches.\<close>

fun match_first :: "string \<Rightarrow> (string \<times> string) option" where
  "match_first [] = match_here []"
| "match_first (c # cs) =
     (case match_here (c # cs) of Some m \<Rightarrow> Some m | None \<Rightarrow> match_first cs)"

definition parseReg :: "string option \<Rightarrow> parsed" where
  "parseReg str =
     (case str of
        None \<Rightarrow> Index 0
      | Some s \<Rightarrow>
          if s = [] then Index 0
          else if CHR ''('' \<in> set s then
            (case match_first s of
               Some (m1, m2) \<Rightarrow>
                 OffsetReg (parseInt m1)
                           (case REG_MAP m2 of Index i \<Rightarrow> Some i | _ \<Rightarrow> None)
             | None \<Rightarrow> REG_MAP s)
          else REG_MAP s)"

text \<open>\<^verbatim>\<open>getRegVal\<close>: reading a typed array at a key that is no index gives \<^verbatim>\<open>undefined\<close>.\<close>

definition getRegVal :: "parsed \<Rightarrow> registers \<Rightarrow> jsval" where
  "getRegVal rIdx nextRegs =
     (case rIdx of
        Index i \<Rightarrow> if i = 0 then Num 0 else if i < length nextRegs then int32 (nextRegs ! i) else Undefined
      | _ \<Rightarrow> Undefined)"

text \<open>
  The assignment \<^verbatim>\<open>nextRegs[k] = v\<close>: at an index the value is stored after
  \<^verbatim>\<open>ToInt32\<close>; at any other key an ordinary property of the array object is set and
  no element changes.
\<close>

definition assignReg :: "parsed \<Rightarrow> jsval \<Rightarrow> registers \<Rightarrow> registers" where
  "assignReg k v nextRegs =
     (case k of
        Index i \<Rightarrow> if i < length nextRegs then nextRegs[i := ToInt32 v] else nextRegs
      | _ \<Rightarrow> nextRegs)"

text \<open>
  \<^verbatim>\<open>getImmOrLabel\<close>. The call \<^verbatim>\<open>labelMap.hasOwnProperty(str)\<close> finds the method in
  \<^verbatim>\<open>Object.prototype\<close> unless a label of that name shadows it with a number, and then
  the call throws.
\<close>

definition getImmOrLabel :: "(string \<rightharpoonup> int) \<Rightarrow> string option \<Rightarrow> js_exception + jsval" where
  "getImmOrLabel lm str =
     (if lm ''hasOwnProperty'' \<noteq> None then Inl NotAFunction
      else case lm (to_string str) of
             Some a \<Rightarrow> Inr (Num a)
           | None \<Rightarrow> Inr (parseInt (to_string str)))"

text \<open>\<^verbatim>\<open>args[i]\<close>: \<^verbatim>\<open>undefined\<close> beyond the end of the array.\<close>

definition arg :: "string list \<Rightarrow> nat \<Rightarrow> string option" where
  "arg as i = (if i < length as then Some (as ! i) else None)"

text \<open>
  \<^verbatim>\<open>const { offset, reg } = parseReg(args[1]); const addr = getRegVal(reg) + offset\<close>:
  destructuring \<^verbatim>\<open>undefined\<close> throws; a number or an inherited member has neither
  property, so both are \<^verbatim>\<open>undefined\<close> and the address is \<^verbatim>\<open>NaN\<close>.
\<close>

definition mem_addr :: "parsed \<Rightarrow> registers \<Rightarrow> js_exception + jsval" where
  "mem_addr p nextRegs =
     (case p of
        Undef \<Rightarrow> Inl CannotDestructure
      | OffsetReg offset reg \<Rightarrow>
          Inr (js_add (getRegVal (case reg of Some i \<Rightarrow> Index i | None \<Rightarrow> Undef) nextRegs)
                      offset)
      | _ \<Rightarrow> Inr (js_add (getRegVal Undef nextRegs) Undefined))"

subsection \<open>The print_string scan\<close>

function print_loop :: "memory \<Rightarrow> int \<Rightarrow> js_string \<Rightarrow> nat \<Rightarrow> nat \<Rightarrow> js_string" where
  "print_loop nextMem addr str char loopGuard =
     (if char \<noteq> 0 \<and> loopGuard < 1000
      then print_loop nextMem (addr + 1) (str @ fromCharCode (int char))
             (getMemByte (Num (addr + 1)) nextMem) (loopGuard + 1)
      else str)"
  by pat_completeness auto
termination
  by (relation "measure (\<lambda>(m, a, s, c, g). 1000 - g)") auto

declare print_loop.simps [simp del]

subsection \<open>Decode and execute\<close>

text \<open>
  The body of the \<^verbatim>\<open>try\<close> block of \<^verbatim>\<open>step\<close> up to the commit: it works on the
  copies \<^verbatim>\<open>nextRegs\<close> and \<^verbatim>\<open>nextMem\<close> and either throws or yields the copies, the
  next PC, the text to append and whether \<^verbatim>\<open>setIsRunning(false)\<close> was called.
\<close>

type_synonym effect = "registers \<times> memory \<times> jsval \<times> js_string \<times> bool"

definition syscall :: "int \<Rightarrow> registers \<Rightarrow> memory \<Rightarrow> effect" where
  "syscall cpc nextRegs nextMem =
     (let nextPc = Num (cpc + 4);
          v0 = sint (nextRegs ! 2)
      in if v0 = 1 then
           (nextRegs, nextMem, nextPc, units (int_toString (sint (nextRegs ! 4))), False)
         else if v0 = 4 then
           (let addr = sint (nextRegs ! 4);
                char = getMemByte (Num addr) nextMem
            in (nextRegs, nextMem, nextPc, print_loop nextMem addr [] char 0, False))
         else if v0 = 10 then
           (nextRegs, nextMem, Num 0, [], True)
         else if v0 = 11 then
           (nextRegs, nextMem, nextPc, fromCharCode (sint (nextRegs ! 4)), False)
         else (nextRegs, nextMem, nextPc, [], False))"

definition execute ::
  "(string \<rightharpoonup> int) \<Rightarrow> int \<Rightarrow> registers \<Rightarrow> memory \<Rightarrow> string \<Rightarrow> string list
     \<Rightarrow> js_exception + effect" where
  "execute lm cpc nextRegs nextMem opc as =
     (let nextPc = Num (cpc + 4);
          p0 = parseReg (arg as 0);
          p1 = parseReg (arg as 1);
          p2 = parseReg (arg as 2);
          r0 = getRegVal p0 nextRegs;
          r1 = getRegVal p1 nextRegs;
          r2 = getRegVal p2 nextRegs
      in
      if opc = ''add'' \<or> opc = ''addu'' then
        Inr (assignReg p0 (js_add r1 r2) nextRegs, nextMem, nextPc, [], False)
      else if opc = ''sub'' \<or> opc = ''subu'' then
        Inr (assignReg p0 (js_sub r1 r2) nextRegs, nextMem, nextPc, [], False)
      else if opc = ''addi'' \<or> opc = ''addiu'' then
        Inr (assignReg p0 (js_add r1 (parseInt (to_string (arg as 2)))) nextRegs,
             nextMem, nextPc, [], False)
      else if opc = ''mul'' then
        Inr (assignReg p0 (int32 (ToInt32 r1 * ToInt32 r2)) nextRegs, nextMem, nextPc, [], False)
      else if opc = ''and'' then
        Inr (assignReg p0 (int32 (ToInt32 r1 AND ToInt32 r2)) nextRegs, nextMem, nextPc, [], False)
      else if opc = ''or'' then
        Inr (assignReg p0 (int32 (ToInt32 r1 OR ToInt32 r2)) nextRegs, nextMem, nextPc, [], False)
      else if opc = ''xor'' then
        Inr (assignReg p0 (int32 (ToInt32 r1 XOR ToInt32 r2)) nextRegs, nextMem, nextPc, [], False)
      else if opc = ''sll'' then
        Inr (assignReg p0
               (int32 (push_bit (shift_count (parseInt (to_string (arg as 2)))) (ToInt32 r1)))
               nextRegs, nextMem, nextPc, [], False)
      else if opc = ''srl'' then
        Inr (assignReg p0
               (int32 (drop_bit (shift_count (parseInt (to_string (arg as 2)))) (ToInt32 r1)))
               nextRegs, nextMem, nextPc, [], False)
      else if opc = ''slt'' then
        Inr (assignReg p0 (if js_lt r1 r2 then Num 1 else Num 0) nextRegs,
             nextMem, nextPc, [], False)
      else if opc = ''slti'' then
        Inr (assignReg p0 (if js_lt r1 (parseInt (to_string (arg as 2))) then Num 1 else Num 0)
               nextRegs, nextMem, nextPc, [], False)
      else if opc = ''lui'' then
        Inr (assignReg p0 (int32 (push_bit 16 (ToInt32 (parseInt (to_string (arg as 1))))))
               nextRegs, nextMem, nextPc, [], False)
      else if opc = ''li'' then
        Inr (assignReg p0 (parseInt (to_string (arg as 1))) nextRegs, nextMem, nextPc, [], False)
      else if opc = ''la'' then
        (case getImmOrLabel lm (arg as 1) of
           Inl e \<Rightarrow> Inl e
         | Inr v \<Rightarrow> Inr (assignReg p0 v nextRegs, nextMem, nextPc, [], False))
      else if opc = ''move'' then
        Inr (assignReg p0 r1 nextRegs, nextMem, nextPc, [], False)
      else if opc = ''lw'' then
        (case mem_addr p1 nextRegs of
           Inl e \<Rightarrow> Inl e
         | Inr addr \<Rightarrow>
             Inr (assignReg p0 (Num (getMemWord addr nextMem)) nextRegs, nextMem, nextPc, [], False))
      else if opc = ''sw'' then
        (case mem_addr p1 nextRegs of
           Inl e \<Rightarrow> Inl e
         | Inr addr \<Rightarrow> Inr (nextRegs, setMemWord addr r0 nextMem, nextPc, [], False))
      else if opc = ''lb'' then
        (case mem_addr p1 nextRegs of
           Inl e \<Rightarrow> Inl e
         | Inr addr \<Rightarrow>
             (let byte = (word_of_nat (getMemByte addr nextMem) :: 32 word);
                  byte = (if byte AND 0x80 \<noteq> 0 then byte OR 0xFFFFFF00 else byte)
              in Inr (assignReg p0 (int32 byte) nextRegs, nextMem, nextPc, [], False)))
      else if opc = ''sb'' then
        (case mem_addr p1 nextRegs of
           Inl e \<Rightarrow> Inl e
         | Inr addr \<Rightarrow> Inr (nextRegs, setMemByte addr r0 nextMem, nextPc, [], False))
      else if opc = ''beq'' then
        (if js_strict_eq r0 r1 then
           (case getImmOrLabel lm (arg as 2) of
              Inl e \<Rightarrow> Inl e
            | Inr t \<Rightarrow> Inr (nextRegs, nextMem, t, [], False))
         else Inr (nextRegs, nextMem, nextPc, [], False))
      else if opc = ''bne'' then
        (if \<not> js_strict_eq r0 r1 then
           (case getImmOrLabel lm (arg as 2) of
              Inl e \<Rightarrow> Inl e
            | Inr t \<Rightarrow> Inr (nextRegs, nextMem, t, [], False))
         else Inr (nextRegs, nextMem, nextPc, [], False))
      else if opc = ''j'' then
        (case getImmOrLabel lm (arg as 0) of
           Inl e \<Rightarrow> Inl e
         | Inr t \<Rightarrow> Inr (nextRegs, nextMem, t, [], False))
      else if opc = ''jal'' then
        (case getImmOrLabel lm (arg as 0) of
           Inl e \<Rightarrow> Inl e
         | Inr t \<Rightarrow> Inr (assignReg (Index 31) (Num (cpc + 4)) nextRegs, nextMem, t, [], False))
      else if opc = ''jr'' then
        Inr (nextRegs, nextMem, r0, [], False)
      else if opc = ''syscall'' then
        Inr (syscall cpc nextRegs nextMem)
      else Inr (nextRegs, nextMem, nextPc, [], False))"

text \<open>
  \<^verbatim>\<open>step\<close>: nothing when an error is set; a halt when no instruction has the
  current PC; otherwise the instruction is executed on copies and the result is
  committed, or the exception is caught and recorded with the PC.
\<close>

definition fetch :: "sim \<Rightarrow> instruction option" where
  "fetch s = List.find (\<lambda>inst. js_strict_eq (Num (inst_pc inst)) (pc s)) (instructions s)"

definition step :: "sim \<Rightarrow> sim" where
  "step s =
     (if error s \<noteq> None then s
      else case fetch s of
             None \<Rightarrow> s\<lparr>isRunning := False\<rparr>
           | Some currentInst \<Rightarrow>
               (case execute (labelMap s) (inst_pc currentInst) (regs s) (memory s)
                       (op currentInst) (args currentInst) of
                  Inl e \<Rightarrow>
                    s\<lparr>error := Some (RuntimeError (inst_pc currentInst) e), isRunning := False\<rparr>
                | Inr (nextRegs, nextMem, nextPc, outputAppend, stop) \<Rightarrow>
                    s\<lparr>regs := nextRegs, memory := nextMem, pc := nextPc,
                      output := output s @ outputAppend,
                      isRunning := (if stop then False else isRunning s)\<rparr>))"

section \<open>Assembler\<close>

subsection \<open>String operations of the host language\<close>

definition js_trim :: "string \<Rightarrow> string" where
  "js_trim s = rev (dropWhile is_ws (rev (dropWhile is_ws s)))"

text \<open>\<^verbatim>\<open>s.split(c)\<close>: the pieces between the separators; never empty.\<close>

fun split_on :: "char \<Rightarrow> string \<Rightarrow> string list" where
  "split_on c [] = [[]]"
| "split_on c (x # xs) =
     (case split_on c xs of
        [] \<Rightarrow> [[x]]
      | h # t \<Rightarrow> if x = c then [] # h # t else (x # h) # t)"

fun join :: "string \<Rightarrow> string list \<Rightarrow> string" where
  "join sep [] = []"
| "join sep [x] = x"
| "join sep (x # y # ys) = x @ sep @ join sep (y # ys)"

text \<open>\<^verbatim>\<open>s.match(/\S+/g)\<close>: the maximal runs of characters that are not white space.\<close>

fun runs :: "string \<Rightarrow> string \<Rightarrow> string list" where
  "runs cur [] = (if cur = [] then [] else [cur])"
| "runs cur (x # xs) =
     (if is_ws x then (if cur = [] then runs [] xs else cur # runs [] xs)
      else runs (cur @ [x]) xs)"

definition match_nonspace :: "string \<Rightarrow> string list" where
  "match_nonspace s = runs [] s"

definition indexOf :: "char \<Rightarrow> string \<Rightarrow> int" where
  "indexOf c s = (if c \<in> set s then int (length (takeWhile (\<lambda>x. x \<noteq> c) s)) else - 1)"

definition lastIndexOf :: "char \<Rightarrow> string \<Rightarrow> int" where
  "lastIndexOf c s =
     (if c \<in> set s then int (length s) - 1 - int (length (takeWhile (\<lambda>x. x \<noteq> c) (rev s)))
      else - 1)"

text \<open>\<^verbatim>\<open>s.substring(a, b)\<close>: both ends are clamped to the string and swapped if reversed.\<close>

definition substring :: "string \<Rightarrow> int \<Rightarrow> int \<Rightarrow> string" where
  "substring s a b =
     (let a' = nat (max 0 (min a (int (length s))));
          b' = nat (max 0 (min b (int (length s))));
          lo = min a' b'; hi = max a' b'
      in take (hi - lo) (drop lo s))"

text \<open>\<^verbatim>\<open>s.replace(/\\x/g, y)\<close>: every backslash followed by \<open>x\<close> becomes \<open>y\<close>.\<close>

fun replace_escape :: "char \<Rightarrow> char \<Rightarrow> string \<Rightarrow> string" where
  "replace_escape x y (a # b # cs) =
     (if a = CHR 0x5C \<and> b = x then y # replace_escape x y cs
      else a # replace_escape x y (b # cs))"
| "replace_escape x y cs = cs"

subsection \<open>The line scan\<close>

record asm =
  currentSection :: string
  dataPtr :: int
  textPtr :: int
  newInstructions :: "instruction list"
  newLabelMap :: "string \<rightharpoonup> int"
  newSourceMap :: "int \<rightharpoonup> nat"
  newDataSegment :: memory

text \<open>
  \<^verbatim>\<open>newLabelMap[label] = ptr\<close> on a plain object: the key \<^verbatim>\<open>__proto__\<close> is the
  prototype accessor, which ignores a number, so that label is not bound.
\<close>

definition bind_label :: "string \<Rightarrow> asm \<Rightarrow> asm" where
  "bind_label label st =
     (let ptr = (if currentSection st = ''.text'' then textPtr st else dataPtr st)
      in if label = ''__proto__'' then st
         else st\<lparr>newLabelMap := (newLabelMap st)(label \<mapsto> ptr)\<rparr>)"

text \<open>\<^verbatim>\<open>newDataSegment[dataPtr++] = v\<close>\<close>

definition put_byte :: "nat \<Rightarrow> asm \<Rightarrow> asm" where
  "put_byte v st = st\<lparr>newDataSegment := (newDataSegment st)(Num (dataPtr st) \<mapsto> v),
                      dataPtr := dataPtr st + 1\<rparr>"

text \<open>
  A line of the data section. The token expression \<^verbatim>\<open>/\S+|"[^"]*"/g\<close> tries its
  first alternative first, and a double quote is itself not white space, so the
  tokens are the runs of characters that are not white space.
\<close>

definition data_line :: "string \<Rightarrow> asm \<Rightarrow> asm" where
  "data_line line st =
     (let tokens = match_nonspace line;
          directive = arg tokens 0
      in if directive = Some ''.asciiz'' \<or> directive = Some ''.ascii'' then
           (let str = substring line (indexOf (CHR 0x22) line + 1) (lastIndexOf (CHR 0x22) line);
                str = replace_escape (CHR ''t'') (CHR 0x09) (replace_escape (CHR ''n'') (CHR 0x0A) str);
                st = foldl (\<lambda>st c. put_byte (of_char c) st) st str
            in if directive = Some ''.asciiz'' then put_byte 0 st else st)
         else if directive = Some ''.word'' then
           (let val = ToInt32 (parseInt (to_string (arg tokens 1)));
                d = dataPtr st
            in st\<lparr>newDataSegment := (newDataSegment st)
                    (Num d \<mapsto> unat (signed_drop_bit 24 val AND 0xFF),
                     Num (d + 1) \<mapsto> unat (signed_drop_bit 16 val AND 0xFF),
                     Num (d + 2) \<mapsto> unat (signed_drop_bit 8 val AND 0xFF),
                     Num (d + 3) \<mapsto> unat (val AND 0xFF)),
                  dataPtr := d + 4\<rparr>)
         else st)"

definition text_line :: "nat \<Rightarrow> string \<Rightarrow> asm \<Rightarrow> asm" where
  "text_line i line st =
     (let cleanLine = map (\<lambda>c. if c = CHR '','' then CHR '' '' else c) line;
          tokens = match_nonspace cleanLine
      in case tokens of
           [] \<Rightarrow> st
         | t # ts \<Rightarrow>
             st\<lparr>newInstructions := newInstructions st @
                    [\<lparr>inst_pc = textPtr st, op = t, args = ts, original = line,
                      sourceLine = i + 1\<rparr>],
                newSourceMap := (newSourceMap st)(textPtr st \<mapsto> i + 1),
                textPtr := textPtr st + 4\<rparr>)"

definition assemble_line :: "nat \<Rightarrow> string \<Rightarrow> asm \<Rightarrow> asm" where
  "assemble_line i raw st =
     (let line = js_trim raw;
          line = (if CHR ''#'' \<in> set line
                  then js_trim (substring line 0 (indexOf (CHR ''#'') line)) else line)
      in if line = [] then st
         else if line = ''.data'' then st\<lparr>currentSection := ''.data''\<rparr>
         else if line = ''.text'' then st\<lparr>currentSection := ''.text''\<rparr>
         else
           (let labelled = (CHR '':'' \<in> set line);
                parts = split_on (CHR '':'') line;
                st = (if labelled then bind_label (js_trim (hd parts)) st else st);
                line = (if labelled then js_trim (join '':'' (tl parts)) else line)
            in if line = [] then st
               else if currentSection st = ''.data'' then data_line line st
               else text_line i line st))"

fun assemble_lines :: "nat \<Rightarrow> string list \<Rightarrow> asm \<Rightarrow> asm" where
  "assemble_lines i [] st = st"
| "assemble_lines i (l # ls) st = assemble_lines (i + 1) ls (assemble_line i l st)"

definition asm_init :: asm where
  "asm_init = \<lparr>currentSection = ''.text'', dataPtr = DATA_START, textPtr = TEXT_START,
               newInstructions = [], newLabelMap = Map.empty, newSourceMap = Map.empty,
               newDataSegment = Map.empty\<rparr>"

text \<open>
  \<^verbatim>\<open>assemble\<close>: the machine state is reset first; then the lines are scanned and the
  result is installed. No operation of the scan throws on a string (\<^verbatim>\<open>parseInt\<close> of
  a missing or malformed literal is \<^verbatim>\<open>NaN\<close>, \<^verbatim>\<open>substring\<close> clamps its arguments), so
  the \<^verbatim>\<open>catch\<close> branch that would set an assembler error is never entered.
\<close>

definition assemble :: "string \<Rightarrow> sim \<Rightarrow> sim" where
  "assemble sourceCode s =
     (let s = s\<lparr>regs := newRegs, pc := Num TEXT_START, output := [], isRunning := False,
                error := None\<rparr>;
          st = assemble_lines 0 (split_on (CHR 0x0A) sourceCode) asm_init
      in s\<lparr>instructions := newInstructions st, labelMap := newLabelMap st,
           memory := newDataSegment st, sourceMap := newSourceMap st\<rparr>)"

subsection \<open>The default program\<close>


text \<open>The state of the hook before anything is assembled.\<close>

definition initial :: sim where
  "initial = \<lparr>regs = replicate 32 0, pc = Num TEXT_START, memory = Map.empty, output = [],
              isRunning = False, error = None, instructions = [], labelMap = Map.empty,
              sourceMap = Map.empty\<rparr>"

section \<open>Notions used to state the properties\<close>



text \<open>The target operand of a branch or jump: the third operand of \<^verbatim>\<open>beq\<close> and \<^verbatim>\<open>bne\<close>, the first of \<^verbatim>\<open>j\<close> and \<^verbatim>\<open>jal\<close>.\<close>

definition target :: "instruction \<Rightarrow> string option" where
  "target inst =
     (if op inst = ''beq'' \<or> op inst = ''bne'' then arg (args inst) 2 else arg (args inst) 0)"

text \<open>
  The bytes that a scan of at most 1000 bytes from address \<open>a\<close> meets before the first
  zero byte.
\<close>

definition scan_bytes :: "memory \<Rightarrow> int \<Rightarrow> nat list" where
  "scan_bytes m a =
     takeWhile (\<lambda>c. c \<noteq> 0) (map (\<lambda>k. getMemByte (Num (a + int k)) m) [0..<1000])"

text \<open>
  A \<^verbatim>\<open>syscall\<close> with service code 4 in \<^verbatim>\<open>$v0\<close>, on a memory in which every byte is the
  letter A: no buffer ends within the scan window.
\<close>

definition unterminated_state :: sim where
  "unterminated_state =
     (assemble ''syscall'' initial)\<lparr>regs := newRegs[2 := 4], memory := (\<lambda>a. Some 65)\<rparr>"

text \<open>Two states that differ at most in the stored content of register cell 0.\<close>

definition same_but_zero :: "sim \<Rightarrow> sim \<Rightarrow> bool" where
  "same_but_zero s t =
     (length (regs s) = length (regs t) \<and> tl (regs s) = tl (regs t)
      \<and> pc s = pc t \<and> memory s = memory t \<and> output s = output t
      \<and> isRunning s = isRunning t \<and> error s = error t
      \<and> instructions s = instructions t \<and> labelMap s = labelMap t
      \<and> sourceMap s = sourceMap t)"




text \<open>
  A program that names \<^verbatim>\<open>$zero\<close> as a destination and then reads it:
  \<^verbatim>\<open>addi $zero, $zero, 5\<close> followed by \<^verbatim>\<open>add $t0, $zero, $zero\<close>.
\<close>

definition zero_write_state :: sim where
  "zero_write_state =
     assemble (''addi $zero, $zero, 5'' @ [CHR 0x0A] @ ''add $t0, $zero, $zero'') initial"

text \<open>What of the outcome of an instruction does not concern register cell 0.\<close>

fun above_zero ::
  "js_exception + effect
     \<Rightarrow> js_exception + (nat \<times> registers \<times> memory \<times> jsval \<times> js_string \<times> bool)" where
  "above_zero (Inl e) = Inl e"
| "above_zero (Inr (r, m, q, out, stop)) = Inr (length r, tl r, m, q, out, stop)"


text \<open>
  The instruction \<^verbatim>\<open>add $foo, $t1, $t2\<close>, whose destination is no register name, on
  registers that hold 3 and 4 in \<^verbatim>\<open>$t1\<close> and \<^verbatim>\<open>$t2\<close>.
\<close>

definition bad_destination_state :: sim where
  "bad_destination_state =
     (assemble ''add $foo, $t1, $t2'' initial)\<lparr>regs := newRegs[9 := 3, 10 := 4]\<rparr>"

section \<open>Memory: word and byte accessors agree\<close>






section \<open>Basic facts about decoding and stepping\<close>







lemma step_commit:
  "error s = None \<Longrightarrow> fetch s = Some inst \<Longrightarrow>
   execute (labelMap s) (inst_pc inst) (regs s) (memory s) (op inst) (args inst)
     = Inr (r, m, p, out, stop) \<Longrightarrow>
   step s = s\<lparr>regs := r, memory := m, pc := p, output := output s @ out,
              isRunning := (if stop then False else isRunning s)\<rparr>"
  by (simp add: step_def)

lemma step_fault:
  "error s = None \<Longrightarrow> fetch s = Some inst \<Longrightarrow>
   execute (labelMap s) (inst_pc inst) (regs s) (memory s) (op inst) (args inst) = Inl e \<Longrightarrow>
   step s = s\<lparr>error := Some (RuntimeError (inst_pc inst) e), isRunning := False\<rparr>"
  by (simp add: step_def)


lemma fetch_NaN: "pc s = NaN \<Longrightarrow> fetch s = None"
  by (simp add: fetch_def find_None_iff)

subsection \<open>The effect of single mnemonics\<close>




lemma execute_syscall: "execute lm p rs m ''syscall'' as = Inr (syscall p rs m)"
  by (simp add: execute_def Let_def)

lemma execute_beq:
  "execute lm p rs m ''beq'' as =
     (if js_strict_eq (getRegVal (parseReg (arg as 0)) rs) (getRegVal (parseReg (arg as 1)) rs)
      then (case getImmOrLabel lm (arg as 2) of
              Inl e \<Rightarrow> Inl e
            | Inr t \<Rightarrow> Inr (rs, m, t, [], False))
      else Inr (rs, m, Num (p + 4), [], False))"
  by (simp add: execute_def Let_def)

lemma execute_bne:
  "execute lm p rs m ''bne'' as =
     (if js_strict_eq (getRegVal (parseReg (arg as 0)) rs) (getRegVal (parseReg (arg as 1)) rs)
      then Inr (rs, m, Num (p + 4), [], False)
      else (case getImmOrLabel lm (arg as 2) of
              Inl e \<Rightarrow> Inl e
            | Inr t \<Rightarrow> Inr (rs, m, t, [], False)))"
  by (simp add: execute_def Let_def)

lemma execute_j:
  "execute lm p rs m ''j'' as =
     (case getImmOrLabel lm (arg as 0) of
        Inl e \<Rightarrow> Inl e
      | Inr t \<Rightarrow> Inr (rs, m, t, [], False))"
  by (simp add: execute_def Let_def)

lemma execute_jal:
  "execute lm p rs m ''jal'' as =
     (case getImmOrLabel lm (arg as 0) of
        Inl e \<Rightarrow> Inl e
      | Inr t \<Rightarrow> Inr (assignReg (Index 31) (Num (p + 4)) rs, m, t, [], False))"
  by (simp add: execute_def Let_def)





section \<open>Arithmetic wraps around\<close>




section \<open>A step commits all changes or none\<close>

text \<open>
  Claim C4. One call of \<open>step\<close> on a state without error is atomic. If it sets an
  error, an instruction was fetched, its execution threw, the error carries that
  instruction's PC, and registers, memory, PC and output are those of before. If it
  sets none and an instruction was fetched, registers, memory and PC are exactly the
  ones its execution produced and the output is extended by the text it produced.
\<close>

theorem step_atomic:
  assumes "error s = None"
  shows "(error (step s) \<noteq> None \<longrightarrow>
            regs (step s) = regs s \<and> memory (step s) = memory s \<and> pc (step s) = pc s
            \<and> output (step s) = output s
            \<and> (\<exists>inst e. fetch s = Some inst
                  \<and> execute (labelMap s) (inst_pc inst) (regs s) (memory s) (op inst) (args inst)
                      = Inl e
                  \<and> error (step s) = Some (RuntimeError (inst_pc inst) e)))
       \<and> (error (step s) = None \<and> fetch s = Some inst \<longrightarrow>
            (\<exists>out stop.
               execute (labelMap s) (inst_pc inst) (regs s) (memory s) (op inst) (args inst)
                 = Inr (regs (step s), memory (step s), pc (step s), out, stop)
               \<and> output (step s) = output s @ out))"
  using assms by (auto simp: step_def split: option.splits sum.splits)

text \<open>
  The fault branch of claim C4 at a concrete input: \<^verbatim>\<open>lw $t0, foo\<close> throws while
  decoding its memory operand, and nothing but the error changes.
\<close>

theorem step_atomic_witness:
  "error (step (assemble ''lw $t0, foo'' initial)) \<noteq> None
   \<and> regs (step (assemble ''lw $t0, foo'' initial)) = regs (assemble ''lw $t0, foo'' initial)
   \<and> memory (step (assemble ''lw $t0, foo'' initial)) = memory (assemble ''lw $t0, foo'' initial)
   \<and> pc (step (assemble ''lw $t0, foo'' initial)) = pc (assemble ''lw $t0, foo'' initial)
   \<and> output (step (assemble ''lw $t0, foo'' initial)) = output (assemble ''lw $t0, foo'' initial)"
proof -
  let ?s = "assemble ''lw $t0, foo'' initial"
  have e: "error ?s = None" by code_simp
  have f: "error (step ?s) = Some (RuntimeError 4194304 CannotDestructure)" by code_simp
  from step_atomic [OF e, of undefined] f show ?thesis by simp
qed

section \<open>The print_string service is bounded\<close>

lemma fromCharCode_nat: "fromCharCode (int c) = [c mod 65536]"
  by (simp add: fromCharCode_def nat_mod_distrib)

lemma print_loop_scan:
  "g \<le> 1000 \<Longrightarrow>
   print_loop m a str (getMemByte (Num a) m) g =
     str @ map (\<lambda>c. c mod 65536)
             (takeWhile (\<lambda>c. c \<noteq> 0) (map (\<lambda>k. getMemByte (Num (a + int k)) m) [0..<1000 - g]))"
proof (induction "1000 - g" arbitrary: a str g)
  case 0
  then show ?case by (subst print_loop.simps) simp
next
  case (Suc n)
  then have g: "g < 1000" and n: "n = 1000 - (g + 1)" by simp_all
  have u: "[0..<1000 - g] = 0 # map Suc [0..<1000 - (g + 1)]"
    using Suc(2) n by (simp add: upt_conv_Cons map_Suc_upt del: upt_Suc)
  show ?case
  proof (cases "getMemByte (Num a) m = 0")
    case True
    then show ?thesis by (subst print_loop.simps) (simp add: u)
  next
    case False
    have "print_loop m a str (getMemByte (Num a) m) g =
          print_loop m (a + 1) (str @ [getMemByte (Num a) m mod 65536])
            (getMemByte (Num (a + 1)) m) (g + 1)"
      using False g by (subst print_loop.simps) (simp add: fromCharCode_nat)
    also have "\<dots> = (str @ [getMemByte (Num a) m mod 65536]) @ map (\<lambda>c. c mod 65536)
             (takeWhile (\<lambda>c. c \<noteq> 0) (map (\<lambda>k. getMemByte (Num (a + 1 + int k)) m) [0..<1000 - (g + 1)]))"
      using g by (intro Suc(1) [OF n]) simp
    finally show ?thesis
      using False by (simp add: u comp_def add.assoc)
  qed
qed

lemma length_scan_bytes: "length (scan_bytes m a) \<le> 1000"
proof -
  have "length (scan_bytes m a) \<le> length (map (\<lambda>k. getMemByte (Num (a + int k)) m) [0..<1000])"
    unfolding scan_bytes_def by (rule length_takeWhile_le)
  then show ?thesis by simp
qed

text \<open>
  Claim C7. For every state whose instruction is a \<^verbatim>\<open>syscall\<close> with service code 4, for
  every address in \<^verbatim>\<open>$a0\<close> and every memory: the step raises no fault and appends the
  bytes (as characters) found from \<^verbatim>\<open>$a0\<close> on, up to the first zero byte or up to 1000
  bytes, whichever comes first; so at most 1000 characters. Registers and memory stay
  and the PC advances by 4.
\<close>

theorem print_string_bounded:
  assumes "error s = None" and "fetch s = Some inst" and "op inst = ''syscall''"
    and "sint (regs s ! 2) = 4"
  shows "error (step s) = None
       \<and> output (step s) =
           output s @ map (\<lambda>c. c mod 65536) (scan_bytes (memory s) (sint (regs s ! 4)))
       \<and> length (output (step s)) \<le> length (output s) + 1000
       \<and> regs (step s) = regs s \<and> memory (step s) = memory s
       \<and> pc (step s) = Num (inst_pc inst + 4)"
proof -
  have "syscall (inst_pc inst) (regs s) (memory s) =
          (regs s, memory s, Num (inst_pc inst + 4),
           map (\<lambda>c. c mod 65536) (scan_bytes (memory s) (sint (regs s ! 4))), False)"
    using assms(4) print_loop_scan [of 0 "memory s" "sint (regs s ! 4)" "[]"]
    by (simp add: syscall_def Let_def scan_bytes_def)
  with execute_syscall [of "labelMap s" "inst_pc inst" "regs s" "memory s" "args inst"]
  have "execute (labelMap s) (inst_pc inst) (regs s) (memory s) (op inst) (args inst) =
          Inr (regs s, memory s, Num (inst_pc inst + 4),
           map (\<lambda>c. c mod 65536) (scan_bytes (memory s) (sint (regs s ! 4))), False)"
    using assms(3) by simp
  from step_commit [OF assms(1,2) this] assms(1) length_scan_bytes [of "memory s" "sint (regs s ! 4)"]
  show ?thesis by simp
qed

text \<open>
  The cap of claim C7 at a concrete input: on a memory without any zero byte the
  service appends exactly 1000 characters and raises no fault.
\<close>

theorem print_string_cap_witness:
  "error (step unterminated_state) = None
   \<and> length (output (step unterminated_state)) = 1000
   \<and> set (output (step unterminated_state)) = {65}"
proof -
  let ?s = unterminated_state
  let ?i = "\<lparr>inst_pc = 4194304, op = ''syscall'', args = [],
             original = ''syscall'', sourceLine = 1\<rparr>"
  have e: "error ?s = None" by code_simp
  have f: "fetch ?s = Some ?i" by code_simp
  have o: "op ?i = ''syscall''" by simp
  have v: "sint (regs ?s ! 2) = 4" by code_simp
  have out: "output ?s = []" by code_simp
  have m: "memory ?s = (\<lambda>a. Some 65)" by (simp add: unterminated_state_def)
  have sc: "scan_bytes (memory ?s) a = replicate 1000 65" for a
    unfolding m scan_bytes_def by (simp add: getMemByte_def map_replicate_const)
  from print_string_bounded [OF e f o v] out sc show ?thesis by simp
qed

section \<open>The zero register\<close>

subsection \<open>Register cell 0 is never read\<close>

lemma nth_from_tl:
  assumes "length rs = length rt" and "tl rs = tl rt" and "0 < i"
  shows "rs ! i = rt ! i"
proof (cases rs)
  case Nil
  with assms(1) show ?thesis by simp
next
  case (Cons x xs)
  with assms(1) obtain y ys where "rt = y # ys" by (cases rt) auto
  with Cons assms(2,3) show ?thesis by (cases i) simp_all
qed

lemma tl_update: "tl (xs[i := v]) = (case i of 0 \<Rightarrow> tl xs | Suc j \<Rightarrow> (tl xs)[j := v])"
  by (cases xs; cases i) simp_all

lemma getRegVal_tl:
  "length rs = length rt \<Longrightarrow> tl rs = tl rt \<Longrightarrow> getRegVal k rs = getRegVal k rt"
  using nth_from_tl [of rs rt]
  by (auto simp: getRegVal_def split: parsed.splits)

lemma assignReg_length: "length (assignReg k v rs) = length rs"
  by (simp add: assignReg_def split: parsed.splits)

lemma assignReg_tl:
  "length rs = length rt \<Longrightarrow> tl rs = tl rt \<Longrightarrow>
   tl (assignReg k v rs) = tl (assignReg k v rt)"
  by (auto simp: assignReg_def tl_update split: parsed.splits nat.splits)

lemma mem_addr_tl:
  "length rs = length rt \<Longrightarrow> tl rs = tl rt \<Longrightarrow> mem_addr k rs = mem_addr k rt"
  using getRegVal_tl [of rs rt]
  by (simp add: mem_addr_def split: parsed.splits)

lemma syscall_tl:
  assumes "length rs = length rt" and "tl rs = tl rt"
  shows "above_zero (Inr (syscall p rs m)) = above_zero (Inr (syscall p rt m))"
proof -
  have "rs ! 2 = rt ! 2" "rs ! 4 = rt ! 4"
    using nth_from_tl [OF assms] by simp_all
  then show ?thesis using assms by (simp add: syscall_def Let_def)
qed

lemma execute_tl:
  assumes "length rs = length rt" and "tl rs = tl rt"
  shows "above_zero (execute lm p rs m opc as) = above_zero (execute lm p rt m opc as)"
proof -
  note g = getRegVal_tl [OF assms]
  note a = assignReg_tl [OF assms]
  note ma = mem_addr_tl [OF assms]
  note sc = syscall_tl [OF assms]
  show ?thesis
    unfolding execute_def Let_def
    by (simp add: g a ma sc assms assignReg_length split: sum.splits)
qed


lemma step_same_but_zero:
  assumes "same_but_zero s t"
  shows "same_but_zero (step s) (step t)"
proof -
  from assms have len: "length (regs s) = length (regs t)" and tl: "tl (regs s) = tl (regs t)"
    and eq: "pc s = pc t" "memory s = memory t" "output s = output t" "isRunning s = isRunning t"
      "error s = error t" "instructions s = instructions t" "labelMap s = labelMap t"
      "sourceMap s = sourceMap t"
    by (simp_all add: same_but_zero_def)
  have f: "fetch s = fetch t" by (simp add: fetch_def eq)
  show ?thesis
  proof (cases "error s = None")
    case False
    with assms eq show ?thesis by (simp add: step_def)
  next
    case True
    show ?thesis
    proof (cases "fetch s")
      case None
      with True f eq len tl show ?thesis by (simp add: step_def same_but_zero_def)
    next
      case (Some inst)
      let ?es = "execute (labelMap s) (inst_pc inst) (regs s) (memory s) (op inst) (args inst)"
      let ?et = "execute (labelMap t) (inst_pc inst) (regs t) (memory t) (op inst) (args inst)"
      have rel: "above_zero ?es = above_zero ?et"
        using execute_tl [OF len tl] eq by simp
      show ?thesis
      proof (cases ?es)
        case (Inl e)
        with rel have "?et = Inl e" by (cases ?et) auto
        with Inl True Some f eq len tl show ?thesis
          by (simp add: step_def same_but_zero_def)
      next
        case (Inr eff)
        obtain r m q out stop where eff: "eff = (r, m, q, out, stop)" by (cases eff)
        from rel Inr eff obtain r' where et: "?et = Inr (r', m, q, out, stop)"
          and r': "length r' = length r" "tl r' = tl r"
          by (cases ?et) auto
        from Inr eff et r' True Some f eq show ?thesis
          by (simp add: step_def same_but_zero_def)
      qed
    qed
  qed
qed

text \<open>
  Claim C1, as amended. The special case for \<^verbatim>\<open>$zero\<close> is on the read side: after any
  number of steps a read of register index 0 through \<open>getRegVal\<close> yields 0, and two
  states that differ only in the stored content of cell 0 stay so for ever, so that
  no register above 0, no memory cell, PC, output or error ever depends on what was
  written there. (The stored cell itself is written like any other: see the
  counterexample.)
\<close>

theorem zero_register_reads:
  assumes "same_but_zero s t"
  shows "same_but_zero ((step ^^ n) s) ((step ^^ n) t)
       \<and> getRegVal (Index 0) (regs ((step ^^ n) s)) = Num 0"
proof -
  have "same_but_zero ((step ^^ n) s) ((step ^^ n) t)"
    using assms by (induction n) (simp_all add: step_same_but_zero)
  then show ?thesis by (simp add: getRegVal_def)
qed

text \<open>
  Claim C1 as stated fails: \<^verbatim>\<open>addi $zero, $zero, 5\<close> names register index 0 as its
  destination, the write is neither special-cased nor ignored, and the register
  array holds 5 at index 0 afterwards.
\<close>

theorem zero_register_counterexample:
  "parseReg (Some ''$zero'') = Index 0 \<and> regs (step zero_write_state) ! 0 = 5"
  by code_simp

text \<open>
  The amended claim at a concrete input: after \<^verbatim>\<open>addi $zero, $zero, 5\<close> and
  \<^verbatim>\<open>add $t0, $zero, $zero\<close> cell 0 holds 5, yet \<^verbatim>\<open>$t0\<close> is 0 and the run does not
  depend on the content of cell 0.
\<close>

theorem zero_register_reads_witness:
  "same_but_zero ((step ^^ 2) zero_write_state)
     ((step ^^ 2) (zero_write_state\<lparr>regs := (regs zero_write_state)[0 := 7]\<rparr>))
   \<and> getRegVal (Index 0) (regs ((step ^^ 2) zero_write_state)) = Num 0
   \<and> regs ((step ^^ 2) zero_write_state) ! 0 = 5
   \<and> regs ((step ^^ 2) zero_write_state) ! 8 = 0"
proof -
  have l: "length (regs zero_write_state) = 32" by code_simp
  then have "same_but_zero zero_write_state
          (zero_write_state\<lparr>regs := (regs zero_write_state)[0 := 7]\<rparr>)"
    by (simp add: same_but_zero_def tl_update)
  from zero_register_reads [OF this, of 2]
  have "same_but_zero ((step ^^ 2) zero_write_state)
          ((step ^^ 2) (zero_write_state\<lparr>regs := (regs zero_write_state)[0 := 7]\<rparr>))
        \<and> getRegVal (Index 0) (regs ((step ^^ 2) zero_write_state)) = Num 0" .
  moreover have "regs ((step ^^ 2) zero_write_state) ! 0 = 5
      \<and> regs ((step ^^ 2) zero_write_state) ! 8 = 0"
    by code_simp
  ultimately show ?thesis by simp
qed

section \<open>Branches and jumps to an unresolved target\<close>

lemma step_halted: "error s = None \<Longrightarrow> pc s = NaN \<Longrightarrow> step s = s\<lparr>isRunning := False\<rparr>"
  by (simp add: step_def fetch_NaN)

lemma steps_halted:
  "error s = None \<Longrightarrow> pc s = NaN \<Longrightarrow> (step ^^ Suc n) s = s\<lparr>isRunning := False\<rparr>"
proof (induction n)
  case 0
  then show ?case by (simp add: step_halted)
next
  case (Suc n)
  then have "(step ^^ Suc (Suc n)) s = step (s\<lparr>isRunning := False\<rparr>)" by simp
  also have "\<dots> = s\<lparr>isRunning := False\<rparr>"
    using Suc.prems step_halted [of "s\<lparr>isRunning := False\<rparr>"] by simp
  finally show ?case .
qed

text \<open>
  Claim C3, as amended. A \<^verbatim>\<open>beq\<close>, \<^verbatim>\<open>bne\<close>, \<^verbatim>\<open>j\<close> or \<^verbatim>\<open>jal\<close> whose target operand is neither a
  key of the label table nor a text that \<^verbatim>\<open>parseInt\<close> reads as a number raises no fault
  (the label table having no label that shadows the method \<^verbatim>\<open>hasOwnProperty\<close>). A jump
  and a taken branch set the PC to \<^verbatim>\<open>NaN\<close>, a branch not taken adds 4. Once the PC is
  \<^verbatim>\<open>NaN\<close> no instruction is found any more: every later step only clears the running
  flag.
\<close>

theorem unresolved_target:
  assumes "error s = None" and "fetch s = Some inst"
    and "op inst \<in> {''beq'', ''bne'', ''j'', ''jal''}"
    and "labelMap s ''hasOwnProperty'' = None"
    and "labelMap s (to_string (target inst)) = None"
    and "parseInt (to_string (target inst)) = NaN"
  shows "error (step s) = None
       \<and> (op inst \<in> {''j'', ''jal''} \<longrightarrow> pc (step s) = NaN)
       \<and> (op inst = ''beq'' \<longrightarrow>
            pc (step s) =
              (if js_strict_eq (getRegVal (parseReg (arg (args inst) 0)) (regs s))
                    (getRegVal (parseReg (arg (args inst) 1)) (regs s))
               then NaN else Num (inst_pc inst + 4)))
       \<and> (op inst = ''bne'' \<longrightarrow>
            pc (step s) =
              (if js_strict_eq (getRegVal (parseReg (arg (args inst) 0)) (regs s))
                    (getRegVal (parseReg (arg (args inst) 1)) (regs s))
               then Num (inst_pc inst + 4) else NaN))
       \<and> (pc (step s) = NaN \<longrightarrow>
            (\<forall>n. (step ^^ Suc n) (step s) = (step s)\<lparr>isRunning := False\<rparr>))"
proof -
  have t: "getImmOrLabel (labelMap s) (target inst) = Inr NaN"
    using assms(4-6) by (simp add: getImmOrLabel_def)
  have st: "error (step s) = None
       \<and> (op inst \<in> {''j'', ''jal''} \<longrightarrow> pc (step s) = NaN)
       \<and> (op inst = ''beq'' \<longrightarrow>
            pc (step s) =
              (if js_strict_eq (getRegVal (parseReg (arg (args inst) 0)) (regs s))
                    (getRegVal (parseReg (arg (args inst) 1)) (regs s))
               then NaN else Num (inst_pc inst + 4)))
       \<and> (op inst = ''bne'' \<longrightarrow>
            pc (step s) =
              (if js_strict_eq (getRegVal (parseReg (arg (args inst) 0)) (regs s))
                    (getRegVal (parseReg (arg (args inst) 1)) (regs s))
               then Num (inst_pc inst + 4) else NaN))"
    using assms(3)
  proof (elim insertE emptyE)
    assume o: "op inst = ''beq''"
    with t show ?thesis
      using assms(1,2) by (simp add: step_def target_def execute_beq del: One_nat_def)
  next
    assume o: "op inst = ''bne''"
    with t show ?thesis
      using assms(1,2) by (simp add: step_def target_def execute_bne del: One_nat_def)
  next
    assume o: "op inst = ''j''"
    with t show ?thesis
      using assms(1,2) by (simp add: step_def target_def execute_j)
  next
    assume o: "op inst = ''jal''"
    with t show ?thesis
      using assms(1,2) by (simp add: step_def target_def execute_jal)
  qed
  then have "error (step s) = None" by simp
  then have "pc (step s) = NaN \<longrightarrow>
            (\<forall>n. (step ^^ Suc n) (step s) = (step s)\<lparr>isRunning := False\<rparr>)"
    using steps_halted [of "step s"] by blast
  with st show ?thesis by blast
qed

text \<open>
  Claim C3 as stated fails: \<^verbatim>\<open>j nowhere\<close>, with no label \<^verbatim>\<open>nowhere\<close>, raises no fault; the
  PC becomes \<^verbatim>\<open>NaN\<close>.
\<close>

theorem unresolved_target_counterexample:
  "labelMap (assemble ''j nowhere'' initial) ''nowhere'' = None
   \<and> parseInt ''nowhere'' = NaN
   \<and> error (step (assemble ''j nowhere'' initial)) = None
   \<and> pc (step (assemble ''j nowhere'' initial)) = NaN"
  by code_simp

text \<open>The amended claim at a concrete input, the taken branch \<^verbatim>\<open>beq $t0, $t0, nowhere\<close>.\<close>

theorem unresolved_target_witness:
  "error (step (assemble ''beq $t0, $t0, nowhere'' initial)) = None
   \<and> pc (step (assemble ''beq $t0, $t0, nowhere'' initial)) = NaN
   \<and> (step ^^ Suc 2) (step (assemble ''beq $t0, $t0, nowhere'' initial))
       = (step (assemble ''beq $t0, $t0, nowhere'' initial))\<lparr>isRunning := False\<rparr>"
proof -
  let ?s = "assemble ''beq $t0, $t0, nowhere'' initial"
  let ?i = "\<lparr>inst_pc = 4194304, op = ''beq'', args = [''$t0'', ''$t0'', ''nowhere''],
             original = ''beq $t0, $t0, nowhere'', sourceLine = 1\<rparr>"
  have e: "error ?s = None" by code_simp
  have f: "fetch ?s = Some ?i" by code_simp
  have o: "op ?i \<in> {''beq'', ''bne'', ''j'', ''jal''}" by simp
  have h: "labelMap ?s ''hasOwnProperty'' = None" by code_simp
  have l: "labelMap ?s (to_string (target ?i)) = None" by code_simp
  have p: "parseInt (to_string (target ?i)) = NaN" by code_simp
  have b: "op ?i = ''beq''" by simp
  have q: "js_strict_eq (getRegVal (parseReg (arg (args ?i) 0)) (regs ?s))
                    (getRegVal (parseReg (arg (args ?i) 1)) (regs ?s))"
    by code_simp
  from unresolved_target [OF e f o h l p] b q
  have "error (step ?s) = None" and "pc (step ?s) = NaN"
    and "pc (step ?s) = NaN \<longrightarrow> (\<forall>n. (step ^^ Suc n) (step ?s) = (step ?s)\<lparr>isRunning := False\<rparr>)"
    by presburger+
  then show ?thesis by blast
qed

section \<open>Alignment of the program counter\<close>














section \<open>A destination that is no register\<close>

lemma assignReg_discard: "\<forall>i. k \<noteq> Index i \<Longrightarrow> assignReg k v rs = rs"
  by (cases k) (simp_all add: assignReg_def)

lemma execute_discard:
  "opc \<noteq> ''jal'' \<Longrightarrow> \<forall>i. parseReg (arg as 0) \<noteq> Index i \<Longrightarrow>
   execute lm p rs m opc as = Inr (r, m', q, out, stop) \<Longrightarrow> r = rs"
  by (auto simp: execute_def Let_def syscall_def assignReg_discard split: if_splits sum.splits)

lemma execute_alu_no_fault:
  "opc \<in> {''add'', ''addu'', ''sub'', ''subu'', ''addi'', ''addiu'', ''mul'', ''and'', ''or'',
           ''xor'', ''sll'', ''srl'', ''slt'', ''slti'', ''lui'', ''li'', ''move''} \<Longrightarrow>
   execute lm p rs m opc as \<noteq> Inl e"
  by (elim insertE emptyE) (simp_all add: execute_def Let_def)

lemma execute_la_no_fault:
  "lm ''hasOwnProperty'' = None \<Longrightarrow> execute lm p rs m ''la'' as \<noteq> Inl e"
  by (auto simp: execute_def Let_def getImmOrLabel_def split: option.splits)

lemma mem_addr_fault: "(\<exists>e. mem_addr k rs = Inl e) = (k = Undef)"
  by (cases k) (simp_all add: mem_addr_def)

lemma execute_load_fault:
  "opc \<in> {''lw'', ''lb''} \<Longrightarrow>
   (\<exists>e. execute lm p rs m opc as = Inl e) = (parseReg (arg as 1) = Undef)"
  using mem_addr_fault [of "parseReg (arg as 1)" rs]
  by (elim insertE emptyE) (auto simp: execute_def Let_def split: sum.splits simp del: One_nat_def)

lemma step_error_iff:
  assumes "error s = None" and "fetch s = Some inst"
  shows "(error (step s) = None) =
         (\<forall>e. execute (labelMap s) (inst_pc inst) (regs s) (memory s) (op inst) (args inst) \<noteq> Inl e)"
  using assms by (auto simp: step_def split: sum.splits)

text \<open>
  Claim C10, as amended. For every instruction (\<^verbatim>\<open>jal\<close> aside, which names no
  destination and always writes \<^verbatim>\<open>$ra\<close>) whose destination operand does not parse to a
  register index, all registers keep their values after the step, and the discarded
  write raises no fault: no error is set for the arithmetic, logic, shift,
  comparison, \<^verbatim>\<open>lui\<close>, \<^verbatim>\<open>li\<close> and \<^verbatim>\<open>move\<close> instructions, none for \<^verbatim>\<open>la\<close> unless a label
  shadows \<^verbatim>\<open>hasOwnProperty\<close>, and for \<^verbatim>\<open>lw\<close> and \<^verbatim>\<open>lb\<close> an error is set exactly when the
  memory operand parses to \<^verbatim>\<open>undefined\<close>.
\<close>

theorem discarded_write:
  assumes "error s = None" and "fetch s = Some inst" and "op inst \<noteq> ''jal''"
    and "\<forall>i. parseReg (arg (args inst) 0) \<noteq> Index i"
  shows "regs (step s) = regs s
       \<and> (op inst \<in> {''add'', ''addu'', ''sub'', ''subu'', ''addi'', ''addiu'', ''mul'', ''and'',
                      ''or'', ''xor'', ''sll'', ''srl'', ''slt'', ''slti'', ''lui'', ''li'', ''move''}
            \<longrightarrow> error (step s) = None)
       \<and> (op inst = ''la'' \<and> labelMap s ''hasOwnProperty'' = None \<longrightarrow> error (step s) = None)
       \<and> (op inst \<in> {''lw'', ''lb''} \<longrightarrow>
            (error (step s) = None) = (parseReg (arg (args inst) 1) \<noteq> Undef))"
proof (intro conjI impI)
  show "regs (step s) = regs s"
  proof (cases "execute (labelMap s) (inst_pc inst) (regs s) (memory s) (op inst) (args inst)")
    case (Inl e)
    with assms(1,2) show ?thesis by (simp add: step_def)
  next
    case (Inr eff)
    obtain r m q out stop where eff: "eff = (r, m, q, out, stop)" by (cases eff)
    with Inr execute_discard [OF assms(3,4)] have "r = regs s" by blast
    with Inr eff assms(1,2) show ?thesis by (simp add: step_def)
  qed
next
  assume "op inst \<in> {''add'', ''addu'', ''sub'', ''subu'', ''addi'', ''addiu'', ''mul'', ''and'',
                      ''or'', ''xor'', ''sll'', ''srl'', ''slt'', ''slti'', ''lui'', ''li'', ''move''}"
  from execute_alu_no_fault [OF this] show "error (step s) = None"
    by (simp add: step_error_iff [OF assms(1,2)])
next
  assume "op inst = ''la'' \<and> labelMap s ''hasOwnProperty'' = None"
  with execute_la_no_fault [of "labelMap s"] show "error (step s) = None"
    by (simp add: step_error_iff [OF assms(1,2)])
next
  assume "op inst \<in> {''lw'', ''lb''}"
  from execute_load_fault [OF this, of "labelMap s" "inst_pc inst" "regs s" "memory s" "args inst"]
  show "(error (step s) = None) = (parseReg (arg (args inst) 1) \<noteq> Undef)"
    unfolding step_error_iff [OF assms(1,2)] by blast
qed

text \<open>
  Claim C10 as stated fails: in \<^verbatim>\<open>lw $foo, bar\<close> the destination is no register name,
  and the step raises a fault, because the memory operand cannot be destructured.
\<close>

theorem discarded_write_counterexample:
  "parseReg (Some ''$foo'') = Undef
   \<and> error (step (assemble ''lw $foo, bar'' initial))
       = Some (RuntimeError 4194304 CannotDestructure)"
  by code_simp

text \<open>The amended claim at a concrete input: \<^verbatim>\<open>add $foo, $t1, $t2\<close> changes no register.\<close>

theorem discarded_write_witness:
  "regs (step bad_destination_state) = regs bad_destination_state
   \<and> error (step bad_destination_state) = None"
proof -
  let ?s = bad_destination_state
  let ?i = "\<lparr>inst_pc = 4194304, op = ''add'', args = [''$foo'', ''$t1'', ''$t2''],
             original = ''add $foo, $t1, $t2'', sourceLine = 1\<rparr>"
  have e: "error ?s = None" by code_simp
  have f: "fetch ?s = Some ?i" by code_simp
  have o: "op ?i \<noteq> ''jal''" by simp
  have "parseReg (arg (args ?i) 0) = Undef" by code_simp
  then have p: "\<forall>i. parseReg (arg (args ?i) 0) \<noteq> Index i" by simp
  from discarded_write [OF e f o p] show ?thesis by simp
qed

section \<open>Assembly replaces everything\<close>


section \<open>The default program\<close>

subsection \<open>Its lines\<close>





subsection \<open>Its assembly\<close>






subsection \<open>Its run\<close>








end
